theory Spec2Isabelle
  imports Main
begin

section \<open>Documents, exceptions and unit status\<close>

text \<open>
  The configuration handled by \<^verbatim>\<open>grafana_agent.py\<close> is a Python value built from
  \<^verbatim>\<open>None\<close>, booleans, integers, strings, lists and dictionaries. A dictionary keeps
  its insertion order, so it is an association list here; its keys are strings.
\<close>

datatype yval =
    YNone
  | YBool bool
  | YInt int
  | YStr string
  | YList "yval list"
  | YDict "(string \<times> yval) list"

type_synonym dict = "(string \<times> yval) list"

text \<open>
  Python's \<^verbatim>\<open>==\<close> on such values, as \<^verbatim>\<open>config == old_config\<close> uses it: lists compare
  element by element; two dictionaries are equal when they have the same number of
  items and every key of the left one is a key of the right one with an equal value,
  whatever the order of insertion; \<^verbatim>\<open>True == 1\<close> and \<^verbatim>\<open>False == 0\<close> hold because
  \<^verbatim>\<open>bool\<close> is a subclass of \<^verbatim>\<open>int\<close>.
\<close>

primrec py_eq :: "yval \<Rightarrow> yval \<Rightarrow> bool"
  and py_eq_list :: "yval list \<Rightarrow> yval list \<Rightarrow> bool"
  and py_sub_dict :: "dict \<Rightarrow> dict \<Rightarrow> bool"
  and py_item_in :: "string \<times> yval \<Rightarrow> dict \<Rightarrow> bool"
where
  "py_eq YNone b = (case b of YNone \<Rightarrow> True | _ \<Rightarrow> False)"
| "py_eq (YBool x) b =
     (case b of YBool y \<Rightarrow> x = y | YInt j \<Rightarrow> (if x then 1 else 0) = j | _ \<Rightarrow> False)"
| "py_eq (YInt i) b =
     (case b of YInt j \<Rightarrow> i = j | YBool y \<Rightarrow> i = (if y then 1 else 0) | _ \<Rightarrow> False)"
| "py_eq (YStr s) b = (case b of YStr t \<Rightarrow> s = t | _ \<Rightarrow> False)"
| "py_eq (YList xs) b = (case b of YList ys \<Rightarrow> py_eq_list xs ys | _ \<Rightarrow> False)"
| "py_eq (YDict d) b =
     (case b of YDict e \<Rightarrow> length d = length e \<and> py_sub_dict d e | _ \<Rightarrow> False)"
| "py_eq_list [] ys = (ys = [])"
| "py_eq_list (x # xs) ys =
     (case ys of [] \<Rightarrow> False | y # ys' \<Rightarrow> py_eq x y \<and> py_eq_list xs ys')"
| "py_sub_dict [] e = True"
| "py_sub_dict (kv # d) e = (py_item_in kv e \<and> py_sub_dict d e)"
| "py_item_in (k, v) e = (case map_of e k of None \<Rightarrow> False | Some w \<Rightarrow> py_eq v w)"

text \<open>
  A Python dictionary has every key once; a document is well formed when that holds of
  every dictionary in it.
\<close>

primrec well_formed :: "yval \<Rightarrow> bool"
  and well_formed_list :: "yval list \<Rightarrow> bool"
  and well_formed_items :: "dict \<Rightarrow> bool"
  and well_formed_item :: "string \<times> yval \<Rightarrow> bool"
where
  "well_formed YNone = True"
| "well_formed (YBool x) = True"
| "well_formed (YInt i) = True"
| "well_formed (YStr s) = True"
| "well_formed (YList xs) = well_formed_list xs"
| "well_formed (YDict d) = (distinct (map fst d) \<and> well_formed_items d)"
| "well_formed_list [] = True"
| "well_formed_list (x # xs) = (well_formed x \<and> well_formed_list xs)"
| "well_formed_items [] = True"
| "well_formed_items (kv # d) = (well_formed_item kv \<and> well_formed_items d)"
| "well_formed_item (k, v) = well_formed v"

text \<open>
  \<^verbatim>\<open>d[k] = v\<close>: an existing key keeps its place and takes the new value, a new key
  goes to the end. \<^verbatim>\<open>{**d, **e}\<close> assigns the items of \<^verbatim>\<open>e\<close> in turn.
\<close>

fun dict_set :: "string \<Rightarrow> yval \<Rightarrow> dict \<Rightarrow> dict" where
  "dict_set k v [] = [(k, v)]"
| "dict_set k v ((k', v') # d) =
     (if k' = k then (k, v) # d else (k', v') # dict_set k v d)"

definition dict_merge :: "dict \<Rightarrow> dict \<Rightarrow> dict" where
  "dict_merge d e = foldl (\<lambda>acc kv. dict_set (fst kv) (snd kv) acc) d e"

text \<open>\<^verbatim>\<open>sep.join(xs)\<close>.\<close>

fun join :: "string \<Rightarrow> string list \<Rightarrow> string" where
  "join sep [] = []"
| "join sep [x] = x"
| "join sep (x # y # ys) = x @ sep @ join sep (y # ys)"

text \<open>
  The exceptions the code names or lets through, each with the text that \<^verbatim>\<open>str(e)\<close>
  returns. \<^verbatim>\<open>OtherError\<close> stands for any exception of another class.
\<close>

datatype exn =
    FileNotFoundError string
  | FileExistsError string
  | IsADirectoryError string
  | PathError string
  | YAMLError string
  | KeyError string
  | APIError string
  | GrafanaAgentReloadError string
  | UnsupportedPath string
  | OtherError string

fun str_of :: "exn \<Rightarrow> string" where
  "str_of (FileNotFoundError m) = m"
| "str_of (FileExistsError m) = m"
| "str_of (IsADirectoryError m) = m"
| "str_of (PathError m) = m"
| "str_of (YAMLError m) = m"
| "str_of (KeyError m) = m"
| "str_of (APIError m) = m"
| "str_of (GrafanaAgentReloadError m) = m"
| "str_of (UnsupportedPath m) = m"
| "str_of (OtherError m) = m"

datatype status =
    ActiveStatus
  | BlockedStatus string
  | MaintenanceStatus string
  | WaitingStatus string

text \<open>A file-system entry below a rules directory.\<close>

datatype node = File string | Dir "string \<Rightarrow> node option"

text \<open>
  What a run does to its collaborators, in the order it does it. The trace is the only
  instrumentation added to the code: it records each assignment to \<^verbatim>\<open>self.unit.status\<close>
  and each call that leaves the charm object.
\<close>

datatype event =
    SetStatus status
  | CallGenerateConfig
  | CallReadFile string
  | CallWriteFile string string
  | CallRestart
  | CallRmtree string
  | CallCopytree string string
  | CallWriteText string string string
  | CallReloadFunc
  | CallPost string

section \<open>The charm object and its surroundings\<close>

text \<open>
  \<^verbatim>\<open>GrafanaAgentCharm\<close> is an abstract base class: \<^verbatim>\<open>is_ready\<close>, \<^verbatim>\<open>read_file\<close>,
  \<^verbatim>\<open>write_file\<close>, \<^verbatim>\<open>restart\<close>, \<^verbatim>\<open>_additional_integrations\<close>,
  \<^verbatim>\<open>_additional_log_configs\<close> and \<^verbatim>\<open>metrics_jobs\<close> are supplied by the subclass, and
  \<^verbatim>\<open>yaml.dump\<close> and \<^verbatim>\<open>yaml.safe_load\<close> by the YAML library. They are parameters of the
  model, together with the Juju model data the code reads. The file hooks act on the
  files of the host, a map from path to text; \<^verbatim>\<open>restart\<close> is given by the exception it
  raises, if any.
\<close>

record hooks =
  is_ready :: bool
  read_file :: "(string \<Rightarrow> string option) \<Rightarrow> string \<Rightarrow> exn + string"
  write_file :: "(string \<Rightarrow> string option) \<Rightarrow> string \<Rightarrow> string \<Rightarrow> exn + (string \<Rightarrow> string option)"
  restart :: "exn option"
  additional_integrations :: dict
  additional_log_configs :: "yval list"
  metrics_jobs :: "yval list"
  yaml_dump :: "yval \<Rightarrow> string"
  yaml_safe_load :: "string \<Rightarrow> exn + yval"
  model_name :: string
  model_uuid :: string
  app_name :: string
  unit_name :: string
  meta_name :: string
  tls_insecure_skip_verify :: yval
  relations :: "string \<Rightarrow> nat list option"

text \<open>
  Everything a handler can change: the files of the host, the rules directories (a map
  from the path of a directory to its entries; distinct paths are distinct, disjoint
  directories), the unit status, the trace, and the endpoint records that
  \<^verbatim>\<open>self._remote_write.endpoints\<close> and \<^verbatim>\<open>self._loki_consumer.loki_endpoints\<close> hand out.
  The records are Python dictionaries, which \<^verbatim>\<open>_enrich_endpoints\<close> assigns into, so
  they are part of the state.
\<close>

record world =
  files :: "string \<Rightarrow> string option"
  dirs :: "string \<Rightarrow> (string \<Rightarrow> node option) option"
  status :: status
  trace :: "event list"
  remote_write_endpoints :: "dict list"
  loki_endpoints :: "dict list"

definition set_status :: "status \<Rightarrow> world \<Rightarrow> world" where
  "set_status s w = w\<lparr>status := s, trace := trace w @ [SetStatus s]\<rparr>"

definition log_event :: "event \<Rightarrow> world \<Rightarrow> world" where
  "log_event e w = w\<lparr>trace := trace w @ [e]\<rparr>"

definition CONFIG_PATH :: string where
  "CONFIG_PATH = ''/etc/grafana-agent.yaml''"

definition REMOTE_WRITE_RELATION_NAME :: string where
  "REMOTE_WRITE_RELATION_NAME = ''send-remote-write''"

definition promtail_positions :: string where
  "promtail_positions = ''/run/promtail-positions.yaml''"

definition http_listen_port :: int where
  "http_listen_port = 3500"

definition grpc_listen_port :: int where
  "grpc_listen_port = 3600"

section \<open>Config synthesis\<close>

text \<open>
  \<^verbatim>\<open>_enrich_endpoints\<close>: every endpoint record of both providers is assigned
  \<^verbatim>\<open>endpoint["tls_config"] = {"insecure_skip_verify": config.get(...)}\<close>, in place, and
  the two lists are returned.
\<close>

definition tls_config :: "yval \<Rightarrow> yval" where
  "tls_config flag = YDict [(''insecure_skip_verify'', flag)]"

definition enrich :: "yval \<Rightarrow> dict \<Rightarrow> dict" where
  "enrich flag endpoint = dict_set ''tls_config'' (tls_config flag) endpoint"

definition enrich_endpoints :: "hooks \<Rightarrow> world \<Rightarrow> (dict list \<times> dict list) \<times> world" where
  "enrich_endpoints h w =
     (let prometheus_endpoints = map (enrich (tls_insecure_skip_verify h)) (remote_write_endpoints w);
          loki = map (enrich (tls_insecure_skip_verify h)) (loki_endpoints w)
      in ((prometheus_endpoints, loki),
          w\<lparr>remote_write_endpoints := prometheus_endpoints, loki_endpoints := loki\<rparr>))"

text \<open>
  \<^verbatim>\<open>_instance_topology\<close> and \<^verbatim>\<open>_instance_name\<close> of the base class. (The machine charm
  overrides the name with the topology of its principal unit; that changes one string
  of the document.)
\<close>

definition instance_topology :: "hooks \<Rightarrow> (string \<times> string) list" where
  "instance_topology h =
     [(''juju_model'', model_name h),
      (''juju_model_uuid'', model_uuid h),
      (''juju_application'', app_name h),
      (''juju_unit'', unit_name h)]"

definition instance_name :: "hooks \<Rightarrow> string" where
  "instance_name h = join ''_'' (map snd (instance_topology h))"

definition relabel_address :: "string \<Rightarrow> string \<Rightarrow> yval" where
  "relabel_address label replacement =
     YDict [(''source_labels'', YList [YStr ''__address__'']),
            (''target_label'', YStr label),
            (''replacement'', YStr replacement)]"

definition relabel_regex :: "string \<Rightarrow> string \<Rightarrow> yval" where
  "relabel_regex label replacement =
     YDict [(''target_label'', YStr label),
            (''regex'', YStr ''(.*)''),
            (''replacement'', YStr replacement)]"

definition integrations_config :: "hooks \<Rightarrow> world \<Rightarrow> yval \<times> world" where
  "integrations_config h w =
     (let job_name = ''juju_'' @ model_name h @ ''_'' @ model_uuid h @ ''_'' @ app_name h
                       @ ''_self-monitoring'';
          ((prometheus_endpoints, _), w') = enrich_endpoints h w;
          conf = dict_merge
            [(''agent'', YDict
                [(''enabled'', YBool True),
                 (''relabel_configs'', YList
                    [relabel_regex ''job'' job_name,
                     relabel_regex ''instance'' (instance_name h),
                     relabel_address ''juju_charm'' (meta_name h),
                     relabel_address ''juju_model'' (model_name h),
                     relabel_address ''juju_model_uuid'' (model_uuid h),
                     relabel_address ''juju_application'' (app_name h),
                     relabel_address ''juju_unit'' (unit_name h)])]),
             (''prometheus_remote_write'', YList (map YDict prometheus_endpoints))]
            (additional_integrations h)
      in (YDict conf, w'))"

definition push_api_server :: "dict list \<Rightarrow> yval" where
  "push_api_server clients =
     YDict [(''name'', YStr ''push_api_server''),
            (''clients'', YList (map YDict clients)),
            (''positions'', YDict [(''filename'', YStr promtail_positions)]),
            (''scrape_configs'', YList
               [YDict [(''job_name'', YStr ''loki''),
                       (''loki_push_api'', YDict
                          [(''server'', YDict
                              [(''http_listen_port'', YInt http_listen_port),
                               (''grpc_listen_port'', YInt grpc_listen_port)])])]])]"

definition loki_config :: "hooks \<Rightarrow> world \<Rightarrow> yval \<times> world" where
  "loki_config h w =
     (let ((_, loki), w') = enrich_endpoints h w;
          configs = (if loki_endpoints w' \<noteq> [] then [push_api_server loki] else [])
                      @ additional_log_configs h
      in (if configs \<noteq> [] then YDict [(''configs'', YList configs)] else YDict [], w'))"

definition generate_config :: "hooks \<Rightarrow> world \<Rightarrow> yval \<times> world" where
  "generate_config h w =
     (let ((prometheus_endpoints, _), w1) = enrich_endpoints h w;
          (integrations, w2) = integrations_config h w1;
          scrape_configs = metrics_jobs h;
          (logs, w3) = loki_config h w2
      in (YDict
            [(''server'', YDict [(''log_level'', YStr ''info'')]),
             (''integrations'', integrations),
             (''metrics'', YDict
                [(''wal_directory'', YStr ''/tmp/agent/data''),
                 (''configs'', YList
                    [YDict [(''name'', YStr ''agent_scraper''),
                            (''scrape_configs'', YList scrape_configs),
                            (''remote_write'', YList (map YDict prometheus_endpoints))]])]),
             (''logs'', logs)],
          w3))"

section \<open>The reconciliation pass\<close>

text \<open>
  \<^verbatim>\<open>old_config = yaml.safe_load(self.read_file(CONFIG_PATH))\<close> inside
  \<^verbatim>\<open>try ... except (FileNotFoundError, PathError): pass\<close>: an exception of one of the
  two classes leaves \<^verbatim>\<open>old_config = None\<close>, any other exception leaves the handler.
\<close>

fun missing_file :: "exn \<Rightarrow> bool" where
  "missing_file (FileNotFoundError m) = True"
| "missing_file (PathError m) = True"
| "missing_file e = False"

definition read_old_config :: "hooks \<Rightarrow> world \<Rightarrow> exn + yval" where
  "read_old_config h w =
     (case (case read_file h (files w) CONFIG_PATH of
              Inl e \<Rightarrow> Inl e
            | Inr text \<Rightarrow> yaml_safe_load h text) of
        Inl e \<Rightarrow> if missing_file e then Inr YNone else Inl e
      | Inr old_config \<Rightarrow> Inr old_config)"

text \<open>
  The two \<^verbatim>\<open>except\<close> clauses around the write and the restart: a
  \<^verbatim>\<open>GrafanaAgentReloadError\<close> blocks the unit, an \<^verbatim>\<open>APIError\<close> makes it wait, each with
  \<^verbatim>\<open>str(e)\<close>; any other exception leaves the handler.
\<close>

fun handle_apply_error :: "exn \<Rightarrow> world \<Rightarrow> world \<times> exn option" where
  "handle_apply_error (GrafanaAgentReloadError m) w =
     (set_status (BlockedStatus (str_of (GrafanaAgentReloadError m))) w, None)"
| "handle_apply_error (APIError m) w =
     (set_status (WaitingStatus (str_of (APIError m))) w, None)"
| "handle_apply_error e w = (w, Some e)"

text \<open>The \<^verbatim>\<open>try\<close> block of \<^verbatim>\<open>_update_config\<close>, entered when the two configs differ.\<close>

definition apply_config :: "hooks \<Rightarrow> yval \<Rightarrow> yval \<Rightarrow> world \<Rightarrow> world \<times> exn option" where
  "apply_config h config old_config w =
     (if \<not> py_eq config old_config then
        (let text = yaml_dump h config;
             w1 = log_event (CallWriteFile CONFIG_PATH text) w
         in case write_file h (files w1) CONFIG_PATH text of
              Inl e \<Rightarrow> handle_apply_error e w1
            | Inr fs \<Rightarrow>
                (let w2 = log_event CallRestart (w1\<lparr>files := fs\<rparr>)
                 in case restart h of
                      Some e \<Rightarrow> handle_apply_error e w2
                    | None \<Rightarrow> (set_status ActiveStatus w2, None)))
      else (w, None))"

definition update_config :: "hooks \<Rightarrow> world \<Rightarrow> world \<times> exn option" where
  "update_config h w =
     (if \<not> is_ready h then
        (set_status (WaitingStatus ''waiting for agent to start'') w, None)
      else
        (let (config, w1) = generate_config h (log_event CallGenerateConfig w);
             w2 = log_event (CallReadFile CONFIG_PATH) w1
         in case read_old_config h w2 of
              Inl e \<Rightarrow> (w2, Some e)
            | Inr old_config \<Rightarrow>
                if py_eq config old_config then (set_status ActiveStatus w2, None)
                else apply_config h config old_config w2))"

text \<open>
  \<^verbatim>\<open>_update_status\<close>. \<^verbatim>\<open>self.model.relations.get(name)\<close> is \<^verbatim>\<open>None\<close> for a relation
  the charm does not declare and the list of its relations otherwise;
  \<^verbatim>\<open>self.model.relations[name]\<close> raises \<^verbatim>\<open>KeyError\<close> for an undeclared one.
\<close>

definition update_status :: "hooks \<Rightarrow> world \<Rightarrow> world \<times> exn option" where
  "update_status h w =
     (case (case relations h ''metrics-endpoint'' of
              None \<Rightarrow> Inr w
            | Some rels \<Rightarrow>
                if rels \<noteq> [] then
                  (if length rels \<noteq> 0 then
                     (case relations h REMOTE_WRITE_RELATION_NAME of
                        None \<Rightarrow> Inl (KeyError REMOTE_WRITE_RELATION_NAME)
                      | Some remote \<Rightarrow>
                          if length remote = 0
                          then Inr (set_status (WaitingStatus ''no related Prometheus remote-write'') w)
                          else Inr w)
                   else Inr w)
                else Inr w) of
        Inl e \<Rightarrow> (w, Some e)
      | Inr w1 \<Rightarrow>
          (let w2 = (if \<not> is_ready h
                     then set_status (WaitingStatus ''waiting for the agent to start'') w1
                     else w1)
           in (set_status ActiveStatus w2, None)))"

section \<open>Alert rules on disk\<close>

text \<open>
  \<^verbatim>\<open>_recurse_call_chain\<close> calls its argument until the result is not callable. A
  callable may raise instead of returning.
\<close>

datatype 'a maybe_func =
    Concrete 'a
  | Callable "unit \<Rightarrow> 'a maybe_func"
  | Raises exn

primrec recurse_call_chain :: "'a maybe_func \<Rightarrow> exn + 'a" where
  "recurse_call_chain (Concrete x) = Inr x"
| "recurse_call_chain (Callable f) = recurse_call_chain (f ())"
| "recurse_call_chain (Raises e) = Inl e"

record RulesMapping =
  src :: string
  dest :: string

text \<open>
  \<^verbatim>\<open>shutil.rmtree(path)\<close> removes an existing directory with everything below it;
  \<^verbatim>\<open>shutil.copytree(src, dst)\<close> reads the source directory first and then creates the
  destination, which must not exist.
\<close>

definition rmtree :: "string \<Rightarrow> world \<Rightarrow> exn + world" where
  "rmtree path w =
     (case dirs w path of
        None \<Rightarrow> Inl (FileNotFoundError path)
      | Some entries \<Rightarrow> Inr (w\<lparr>dirs := (dirs w)(path := None)\<rparr>))"

definition copytree :: "string \<Rightarrow> string \<Rightarrow> world \<Rightarrow> exn + world" where
  "copytree s d w =
     (case dirs w s of
        None \<Rightarrow> Inl (FileNotFoundError s)
      | Some entries \<Rightarrow>
          (case dirs w d of
             Some existing \<Rightarrow> Inl (FileExistsError d)
           | None \<Rightarrow> Inr (w\<lparr>dirs := (dirs w)(d \<mapsto> entries)\<rparr>)))"

text \<open>
  \<^verbatim>\<open>pathlib.Path(d, name).write_text(text)\<close> for a name that is a single path
  component. A name with a \<^verbatim>\<open>/\<close> would address a file below another directory; the
  model does not follow such a path and answers \<^verbatim>\<open>UnsupportedPath\<close>, so nothing is
  stated about it.
\<close>

definition write_text :: "string \<Rightarrow> string \<Rightarrow> string \<Rightarrow> world \<Rightarrow> exn + world" where
  "write_text d name text w =
     (if CHR ''/'' \<in> set name then Inl (UnsupportedPath name)
      else case dirs w d of
        None \<Rightarrow> Inl (FileNotFoundError d)
      | Some entries \<Rightarrow>
          (case entries name of
             Some (Dir sub) \<Rightarrow> Inl (IsADirectoryError name)
           | _ \<Rightarrow> Inr (w\<lparr>dirs := (dirs w)(d \<mapsto> entries(name \<mapsto> File text))\<rparr>)))"

definition rules_file :: "string \<Rightarrow> string" where
  "rules_file topology_identifier = ''juju_'' @ topology_identifier @ ''.rules''"

text \<open>The loop over \<^verbatim>\<open>rules.items()\<close>.\<close>

fun write_rules :: "hooks \<Rightarrow> string \<Rightarrow> dict \<Rightarrow> world \<Rightarrow> world \<times> exn option" where
  "write_rules h d [] w = (w, None)"
| "write_rules h d ((topology_identifier, rule) # rest) w =
     (let text = yaml_dump h rule;
          w1 = log_event (CallWriteText d (rules_file topology_identifier) text) w
      in case write_text d (rules_file topology_identifier) text w1 of
           Inl e \<Rightarrow> (w1, Some e)
         | Inr w2 \<Rightarrow> write_rules h d rest w2)"

text \<open>What one turn of the loop does to the entries of the destination directory.\<close>

definition rule_write ::
  "hooks \<Rightarrow> string \<times> yval \<Rightarrow> (string \<Rightarrow> node option) \<Rightarrow> (string \<Rightarrow> node option)" where
  "rule_write h item entries = entries(rules_file (fst item) \<mapsto> File (yaml_dump h (snd item)))"

text \<open>
  \<^verbatim>\<open>update_alerts_rules\<close>. \<^verbatim>\<open>reload_func\<close> is a callable of a relation library; it is
  given by the exception it raises, if any, and its call is recorded in the trace.
\<close>

definition update_alerts_rules ::
  "hooks \<Rightarrow> dict maybe_func \<Rightarrow> exn option \<Rightarrow> RulesMapping \<Rightarrow> world \<Rightarrow> world \<times> exn option" where
  "update_alerts_rules h alerts_func reload_func mapping w =
     (case recurse_call_chain alerts_func of
        Inl e \<Rightarrow> (w, Some e)
      | Inr rules \<Rightarrow>
          (let w1 = log_event (CallRmtree (dest mapping)) w
           in case rmtree (dest mapping) w1 of
                Inl e \<Rightarrow> (w1, Some e)
              | Inr w2 \<Rightarrow>
                  (let w3 = log_event (CallCopytree (src mapping) (dest mapping)) w2
                   in case copytree (src mapping) (dest mapping) w3 of
                        Inl e \<Rightarrow> (w3, Some e)
                      | Inr w4 \<Rightarrow>
                          (case write_rules h (dest mapping) rules w4 of
                             (w5, Some e) \<Rightarrow> (w5, Some e)
                           | (w5, None) \<Rightarrow> (log_event CallReloadFunc w5, reload_func)))))"

section \<open>Reloading over HTTP\<close>

text \<open>
  \<^verbatim>\<open>_reload_config\<close> posts through a \<^verbatim>\<open>requests\<close> session whose adapter carries
  \<^verbatim>\<open>Retry(total=attempts, backoff_factor=0.1, status_forcelist=errors)\<close>. The retry
  loop is the library's (\<^verbatim>\<open>urllib3\<close>), not the repository's; it is written out here as
  the library documents it, because the number of requests depends on it:
  \<^item> \<^verbatim>\<open>total\<close> is the number of retries allowed after the first request; each retry
    takes one off, and the request fails with \<^verbatim>\<open>MaxRetryError\<close> once the count would drop
    below zero;
  \<^item> a response whose status is in \<^verbatim>\<open>status_forcelist\<close> is retried only when the
    request's method is in \<^verbatim>\<open>allowed_methods\<close>, whose default has no \<^verbatim>\<open>POST\<close>; otherwise
    the response is returned as it is;
  \<^item> a failed connection is retried under the same count whatever the method.
  The pauses between requests are not modelled. \<^verbatim>\<open>describe\<close> is the text the library
  gives the exception for the last failure.
\<close>

datatype answer = Status nat | ConnectionFailed string

record retry =
  retry_total :: int
  status_forcelist :: "nat list"
  allowed_methods :: "string list"

definition DEFAULT_ALLOWED_METHODS :: "string list" where
  "DEFAULT_ALLOWED_METHODS = [''HEAD'', ''GET'', ''PUT'', ''DELETE'', ''OPTIONS'', ''TRACE'']"

definition is_retry :: "retry \<Rightarrow> string \<Rightarrow> nat \<Rightarrow> bool" where
  "is_retry r method status_code =
     (method \<in> set (allowed_methods r) \<and> status_code \<in> set (status_forcelist r))"

function urlopen ::
  "retry \<Rightarrow> string \<Rightarrow> string \<Rightarrow> (answer \<Rightarrow> string) \<Rightarrow> (nat \<Rightarrow> answer) \<Rightarrow> nat \<Rightarrow> world
     \<Rightarrow> (exn + nat) \<times> world" where
  "urlopen r method url describe endpoint k w =
     (case endpoint k of
        Status s \<Rightarrow>
          if is_retry r method s then
            (if retry_total r - 1 < 0
             then (Inl (OtherError (describe (Status s))), log_event (CallPost url) w)
             else urlopen (r\<lparr>retry_total := retry_total r - 1\<rparr>) method url describe endpoint
                    (Suc k) (log_event (CallPost url) w))
          else (Inr s, log_event (CallPost url) w)
      | ConnectionFailed m \<Rightarrow>
          if retry_total r - 1 < 0
          then (Inl (OtherError (describe (ConnectionFailed m))), log_event (CallPost url) w)
          else urlopen (r\<lparr>retry_total := retry_total r - 1\<rparr>) method url describe endpoint
                 (Suc k) (log_event (CallPost url) w))"
  by pat_completeness auto
termination
  by (relation "measure (\<lambda>(r, method, url, describe, endpoint, k, w). nat (retry_total r))") auto

declare urlopen.simps [simp del]

definition reload_url :: string where
  "reload_url = ''http://localhost/-/reload''"

definition errors :: "nat list" where
  "errors = [400..<452] @ [500..<513]"

text \<open>\<^verbatim>\<open>_reload_config\<close>: every exception of the \<^verbatim>\<open>try\<close> block is wrapped.\<close>

definition reload_config ::
  "(answer \<Rightarrow> string) \<Rightarrow> (nat \<Rightarrow> answer) \<Rightarrow> int \<Rightarrow> world \<Rightarrow> world \<times> exn option" where
  "reload_config describe endpoint attempts w =
     (let w1 = set_status (MaintenanceStatus ''reloading agent configuration'') w;
          retries = \<lparr>retry_total = attempts, status_forcelist = errors,
                     allowed_methods = DEFAULT_ALLOWED_METHODS\<rparr>
      in case urlopen retries ''POST'' reload_url describe endpoint 0 w1 of
           (Inl e, w2) \<Rightarrow>
             (w2, Some (GrafanaAgentReloadError (''could not reload configuration: '' @ str_of e)))
         | (Inr response, w2) \<Rightarrow> (w2, None))"

section \<open>The machine charm and an example deployment\<close>

text \<open>
  The file hooks of \<^verbatim>\<open>machine_charm.py\<close>: \<^verbatim>\<open>open(filepath).read()\<close> and
  \<^verbatim>\<open>open(path, "w").write(text)\<close>. Its \<^verbatim>\<open>restart\<close> runs \<^verbatim>\<open>snap restart\<close> without
  checking the result, so it raises nothing.
\<close>

definition machine_read_file :: "(string \<Rightarrow> string option) \<Rightarrow> string \<Rightarrow> exn + string" where
  "machine_read_file fs filepath =
     (case fs filepath of None \<Rightarrow> Inl (FileNotFoundError filepath) | Some text \<Rightarrow> Inr text)"

definition machine_write_file ::
  "(string \<Rightarrow> string option) \<Rightarrow> string \<Rightarrow> string \<Rightarrow> exn + (string \<Rightarrow> string option)" where
  "machine_write_file fs path text = Inr (fs(path \<mapsto> text))"

text \<open>
  A small deployment on which the theorems below are exercised: one remote-write
  endpoint, one Loki endpoint, no config file yet. Its YAML library knows one text,
  which it loads with the keys of the top-level mapping in another order than the
  synthesis produces them; any other non-empty text does not parse. It dumps the config
  and two rule groups to a text of their own.
\<close>

definition demo_world :: world where
  "demo_world =
     \<lparr>files = Map.empty, dirs = Map.empty, status = MaintenanceStatus ''installing'', trace = [],
      remote_write_endpoints = [[(''url'', YStr ''http://prometheus:9090/api/v1/write'')]],
      loki_endpoints = [[(''url'', YStr ''http://loki:3100/loki/api/v1/push'')]]\<rparr>"

definition plain_hooks :: hooks where
  "plain_hooks =
     \<lparr>is_ready = True, read_file = machine_read_file, write_file = machine_write_file,
      restart = None, additional_integrations = [], additional_log_configs = [],
      metrics_jobs = [], yaml_dump = (\<lambda>c. []), yaml_safe_load = (\<lambda>text. Inr YNone),
      model_name = ''lma'', model_uuid = ''f3a6'', app_name = ''agent'', unit_name = ''agent/0'',
      meta_name = ''grafana-agent'', tls_insecure_skip_verify = YBool False,
      relations = [''metrics-endpoint'' \<mapsto> [1], ''send-remote-write'' \<mapsto> []]\<rparr>"

definition demo_config :: yval where
  "demo_config = fst (generate_config plain_hooks demo_world)"

definition reordered :: "yval \<Rightarrow> yval" where
  "reordered c = (case c of YDict d \<Rightarrow> YDict (rev d) | _ \<Rightarrow> c)"

definition rule_A :: yval where
  "rule_A = YDict [(''groups'', YList [YDict [(''name'', YStr ''a'')]])]"

definition rule_B :: yval where
  "rule_B = YDict [(''groups'', YList [YDict [(''name'', YStr ''b'')]])]"

definition demo_dump :: "yval \<Rightarrow> string" where
  "demo_dump c =
     (if c = demo_config then ''agent config''
      else if c = rule_A then ''groups: [{name: a}]''
      else if c = rule_B then ''groups: [{name: b}]''
      else ''another document'')"

definition demo_safe_load :: "string \<Rightarrow> exn + yval" where
  "demo_safe_load text =
     (if text = ''agent config'' then Inr (reordered demo_config)
      else if text = [] then Inr YNone
      else Inl (YAMLError ''could not parse''))"

definition demo_hooks :: hooks where
  "demo_hooks = plain_hooks\<lparr>yaml_dump := demo_dump, yaml_safe_load := demo_safe_load\<rparr>"

text \<open>
  The metrics rules directories of a charm unpacked at \<^verbatim>\<open>/charm\<close>: the template holds one
  static file, the destination also a file that an earlier sync generated for a group
  \<^verbatim>\<open>B\<close>.
\<close>

definition metrics_rules_paths :: RulesMapping where
  "metrics_rules_paths =
     \<lparr>src = ''/charm/./src/prometheus_alert_rules'', dest = ''/charm/./prometheus_alert_rules''\<rparr>"

definition rules_world :: world where
  "rules_world =
     demo_world
       \<lparr>dirs :=
          [''/charm/./src/prometheus_alert_rules'' \<mapsto> [''agent.rules'' \<mapsto> File ''groups: []''],
           ''/charm/./prometheus_alert_rules'' \<mapsto>
             [''agent.rules'' \<mapsto> File ''groups: []'',
              ''juju_B.rules'' \<mapsto> File ''groups: [{name: b}]'']]\<rparr>"

section \<open>Reading a document\<close>

text \<open>
  \<^verbatim>\<open>config["metrics"]["configs"][0]["remote_write"]\<close> and the like: a path of
  dictionary keys and list indices into a document, \<^verbatim>\<open>None\<close> where the path leaves it.
\<close>

datatype key = Key string | Index nat

fun lookup :: "key list \<Rightarrow> yval \<Rightarrow> yval option" where
  "lookup [] v = Some v"
| "lookup (Key k # ks) (YDict d) = (case map_of d k of None \<Rightarrow> None | Some v \<Rightarrow> lookup ks v)"
| "lookup (Index i # ks) (YList xs) = (if i < length xs then lookup ks (xs ! i) else None)"
| "lookup (k # ks) v = None"

section \<open>Properties of documents\<close>

lemma dict_set_idem: "dict_set k v (dict_set k v d) = dict_set k v d"
  by (induction d) auto

lemma map_of_dict_set: "map_of (dict_set k v d) k' = (if k' = k then Some v else map_of d k')"
  by (induction d) auto

lemma map_of_dict_set_other: "k' \<noteq> k \<Longrightarrow> map_of (dict_set k v d) k' = map_of d k'"
  by (simp add: map_of_dict_set)

lemma map_of_dict_merge_other:
  "k \<notin> fst ` set e \<Longrightarrow> map_of (dict_merge d e) k = map_of d k"
  unfolding dict_merge_def
  by (induction e arbitrary: d) (auto simp: map_of_dict_set)

text \<open>
  Equality of documents does not see the order in which the keys of a dictionary were
  inserted, at any depth, and a well-formed document is equal to itself.
\<close>

lemma well_formed_list_iff: "well_formed_list xs = (\<forall>x \<in> set xs. well_formed x)"
  by (induction xs) auto

lemma well_formed_items_iff: "well_formed_items d = (\<forall>kv \<in> set d. well_formed (snd kv))"
  by (induction d) auto

lemma py_sub_dict_iff: "py_sub_dict d e = (\<forall>kv \<in> set d. py_item_in kv e)"
  by (induction d) auto

lemma py_eq_list_refl: "(\<forall>x \<in> set xs. py_eq x x) \<Longrightarrow> py_eq_list xs xs"
  by (induction xs) auto

lemma py_eq_dict_reordered:
  assumes "distinct (map fst d)" and "set e = set d" and "length e = length d"
    and "\<forall>kv \<in> set d. py_eq (snd kv) (snd kv)"
  shows "py_eq (YDict d) (YDict e)"
proof -
  have "card (set (map fst e)) = length (map fst e)"
    using assms(1-3) distinct_card [of "map fst d"] by simp
  then have de: "distinct (map fst e)"
    by (rule card_distinct)
  have "py_item_in kv e" if "kv \<in> set d" for kv
  proof -
    obtain k v where kv: "kv = (k, v)" by (cases kv)
    with that assms(2) have "(k, v) \<in> set e" by simp
    with de have "map_of e k = Some v" by simp
    with assms(4) that kv show ?thesis by auto
  qed
  then show ?thesis
    using assms(3) by (simp add: py_sub_dict_iff)
qed

lemma py_eq_refl: "well_formed v \<Longrightarrow> py_eq v v"
proof (induction v)
  case (YList xs)
  then show ?case
    by (auto simp: well_formed_list_iff intro: py_eq_list_refl)
next
  case (YDict d)
  have "\<forall>kv \<in> set d. py_eq (snd kv) (snd kv)"
  proof
    fix kv assume "kv \<in> set d"
    moreover obtain k v where "kv = (k, v)" by (cases kv)
    ultimately show "py_eq (snd kv) (snd kv)"
      using YDict.IH [of kv v] YDict.prems by (auto simp: well_formed_items_iff)
  qed
  with YDict.prems show ?case
    by (intro py_eq_dict_reordered) simp_all
qed simp_all

lemma py_eq_key_order:
  assumes "well_formed (YDict d)" and "set e = set d" and "length e = length d"
  shows "py_eq (YDict d) (YDict e)"
  using assms
  by (intro py_eq_dict_reordered) (auto simp: well_formed_items_iff intro: py_eq_refl)

section \<open>Properties of config synthesis\<close>

lemmas demo_defs = demo_hooks_def plain_hooks_def demo_world_def demo_dump_def demo_safe_load_def
  demo_config_def reordered_def machine_read_file_def machine_write_file_def

lemmas synth_defs = generate_config_def integrations_config_def loki_config_def
  enrich_endpoints_def enrich_def tls_config_def dict_merge_def relabel_regex_def
  relabel_address_def push_api_server_def instance_name_def instance_topology_def

lemma enrich_idem: "enrich f (enrich f ep) = enrich f ep"
  by (simp add: enrich_def dict_set_idem)

text \<open>
  Synthesis changes nothing of the state but the endpoint records, and the document
  depends on nothing of the state but them.
\<close>

lemma generate_config_world:
  "snd (generate_config h w) =
     w\<lparr>remote_write_endpoints := map (enrich (tls_insecure_skip_verify h)) (remote_write_endpoints w),
       loki_endpoints := map (enrich (tls_insecure_skip_verify h)) (loki_endpoints w)\<rparr>"
  by (simp add: generate_config_def integrations_config_def loki_config_def enrich_endpoints_def
      Let_def enrich_idem split_def comp_def)

lemma generate_config_doc_cong:
  "remote_write_endpoints w = remote_write_endpoints v \<Longrightarrow> loki_endpoints w = loki_endpoints v \<Longrightarrow>
   fst (generate_config h w) = fst (generate_config h v)"
  by (simp add: generate_config_def integrations_config_def loki_config_def enrich_endpoints_def
      Let_def split_def)

lemma generate_config_doc_idem:
  "fst (generate_config h (snd (generate_config h w))) = fst (generate_config h w)"
  by (simp add: generate_config_def integrations_config_def loki_config_def enrich_endpoints_def
      Let_def enrich_idem split_def comp_def)

lemma generate_config_is_dict: "\<exists>d. fst (generate_config h w) = YDict d \<and> d \<noteq> []"
  by (simp add: generate_config_def split_def Let_def)

lemma generate_config_not_none: "\<not> py_eq (fst (generate_config h w)) YNone"
  using generate_config_is_dict [of h w] by auto

lemma files_generate_config [simp]: "files (snd (generate_config h w)) = files w"
  by (simp add: generate_config_world)

lemma trace_generate_config [simp]: "trace (snd (generate_config h w)) = trace w"
  by (simp add: generate_config_world)

lemma fst_generate_config_log [simp]:
  "fst (generate_config h (log_event e w)) = fst (generate_config h w)"
  by (rule generate_config_doc_cong) (simp_all add: log_event_def)

lemma snd_generate_config_log:
  "snd (generate_config h (log_event e w)) = log_event e (snd (generate_config h w))"
  by (simp add: generate_config_world log_event_def)

lemma tls_of_enrich: "map_of (enrich flag ep) ''tls_config'' = Some (tls_config flag)"
  by (simp add: enrich_def map_of_dict_set)

text \<open>
  C8. Whatever the value of the \<^verbatim>\<open>tls_insecure_skip_verify\<close> option and however many
  endpoints the two providers supply, the synthesized config embeds all of them, each
  with \<^verbatim>\<open>tls_config = {"insecure_skip_verify": flag}\<close> for that one value: in the
  \<^verbatim>\<open>remote_write\<close> list of the metrics section, in \<^verbatim>\<open>prometheus_remote_write\<close> of the
  integrations (unless the subclass's additional integrations replace that key) and in
  the \<^verbatim>\<open>clients\<close> of the Loki push server (present when there is a Loki endpoint).
\<close>

theorem generate_config_tls:
  "(let flag = tls_insecure_skip_verify h;
        config = fst (generate_config h w);
        prometheus_endpoints = map (enrich flag) (remote_write_endpoints w);
        loki = map (enrich flag) (loki_endpoints w)
    in lookup [Key ''metrics'', Key ''configs'', Index 0, Key ''remote_write''] config
         = Some (YList (map YDict prometheus_endpoints))
     \<and> (''prometheus_remote_write'' \<notin> fst ` set (additional_integrations h) \<longrightarrow>
          lookup [Key ''integrations'', Key ''prometheus_remote_write''] config
            = Some (YList (map YDict prometheus_endpoints)))
     \<and> (loki_endpoints w \<noteq> [] \<longrightarrow>
          lookup [Key ''logs'', Key ''configs'', Index 0, Key ''clients''] config
            = Some (YList (map YDict loki)))
     \<and> length prometheus_endpoints = length (remote_write_endpoints w)
     \<and> length loki = length (loki_endpoints w)
     \<and> (\<forall>endpoint \<in> set (prometheus_endpoints @ loki).
          map_of endpoint ''tls_config'' = Some (YDict [(''insecure_skip_verify'', flag)])))"
proof -
  let ?flag = "tls_insecure_skip_verify h"
  let ?P = "map (enrich ?flag) (remote_write_endpoints w)"
  let ?L = "map (enrich ?flag) (loki_endpoints w)"
  have PP: "map (enrich ?flag) ?P = ?P" and LL: "map (enrich ?flag) ?L = ?L"
    by (simp_all add: enrich_idem comp_def)
  have m: "lookup [Key ''metrics'', Key ''configs'', Index 0, Key ''remote_write'']
             (fst (generate_config h w)) = Some (YList (map YDict ?P))"
    by (simp add: generate_config_def split_def Let_def enrich_endpoints_def)
  have i: "lookup [Key ''integrations'', Key ''prometheus_remote_write''] (fst (generate_config h w))
             = Some (YList (map YDict ?P))"
    if "''prometheus_remote_write'' \<notin> fst ` set (additional_integrations h)"
    using that PP
    by (simp add: generate_config_def integrations_config_def split_def Let_def
        enrich_endpoints_def map_of_dict_merge_other del: map_map)
  have l: "lookup [Key ''logs'', Key ''configs'', Index 0, Key ''clients''] (fst (generate_config h w))
             = Some (YList (map YDict ?L))"
    if "loki_endpoints w \<noteq> []"
    using that PP LL
    by (simp add: generate_config_def integrations_config_def loki_config_def split_def Let_def
        enrich_endpoints_def push_api_server_def del: map_map)
  have t: "\<forall>endpoint \<in> set (?P @ ?L).
          map_of endpoint ''tls_config'' = Some (YDict [(''insecure_skip_verify'', ?flag)])"
    by (auto simp: tls_of_enrich tls_config_def)
  show ?thesis
    unfolding Let_def using m i l t by simp
qed

theorem generate_config_tls_witness:
  "''prometheus_remote_write'' \<notin> fst ` set (additional_integrations demo_hooks)
   \<and> loki_endpoints demo_world \<noteq> []
   \<and> lookup [Key ''metrics'', Key ''configs'', Index 0, Key ''remote_write'']
        (fst (generate_config (demo_hooks\<lparr>tls_insecure_skip_verify := YBool True\<rparr>) demo_world))
       = Some (YList [YDict [(''url'', YStr ''http://prometheus:9090/api/v1/write''),
                             (''tls_config'', YDict [(''insecure_skip_verify'', YBool True)])]])
   \<and> lookup [Key ''integrations'', Key ''prometheus_remote_write'']
        (fst (generate_config (demo_hooks\<lparr>tls_insecure_skip_verify := YBool True\<rparr>) demo_world))
       = Some (YList [YDict [(''url'', YStr ''http://prometheus:9090/api/v1/write''),
                             (''tls_config'', YDict [(''insecure_skip_verify'', YBool True)])]])
   \<and> lookup [Key ''logs'', Key ''configs'', Index 0, Key ''clients'']
        (fst (generate_config (demo_hooks\<lparr>tls_insecure_skip_verify := YBool True\<rparr>) demo_world))
       = Some (YList [YDict [(''url'', YStr ''http://loki:3100/loki/api/v1/push''),
                             (''tls_config'', YDict [(''insecure_skip_verify'', YBool True)])]])
   \<and> lookup [Key ''logs'', Key ''configs'', Index 0, Key ''clients'']
        (fst (generate_config (demo_hooks\<lparr>tls_insecure_skip_verify := YBool False\<rparr>) demo_world))
       = Some (YList [YDict [(''url'', YStr ''http://loki:3100/loki/api/v1/push''),
                             (''tls_config'', YDict [(''insecure_skip_verify'', YBool False)])]])"
  using generate_config_tls [of "demo_hooks\<lparr>tls_insecure_skip_verify := YBool True\<rparr>" demo_world]
    generate_config_tls [of "demo_hooks\<lparr>tls_insecure_skip_verify := YBool False\<rparr>" demo_world]
  by (simp add: Let_def demo_hooks_def plain_hooks_def demo_world_def enrich_def)

lemma generate_config_world_idem:
  "snd (generate_config h (snd (generate_config h w))) = snd (generate_config h w)"
  by (simp add: generate_config_world enrich_idem comp_def)

text \<open>
  C9, as the code has it. Synthesis touches no file, no directory, no status and calls no
  collaborator, and a second synthesis returns the same document and changes nothing
  more. It does change its inputs in one respect: every endpoint record of the two
  providers is assigned \<^verbatim>\<open>tls_config\<close>; all other keys of the records keep their values.
\<close>

theorem generate_config_effect:
  "snd (generate_config h w) =
     w\<lparr>remote_write_endpoints := map (enrich (tls_insecure_skip_verify h)) (remote_write_endpoints w),
       loki_endpoints := map (enrich (tls_insecure_skip_verify h)) (loki_endpoints w)\<rparr>
   \<and> generate_config h (snd (generate_config h w))
       = (fst (generate_config h w), snd (generate_config h w))
   \<and> (\<forall>endpoint k. k \<noteq> ''tls_config'' \<longrightarrow>
         map_of (enrich (tls_insecure_skip_verify h) endpoint) k = map_of endpoint k)"
  by (simp add: generate_config_world [symmetric] generate_config_doc_idem
      generate_config_world_idem prod_eq_iff enrich_def map_of_dict_set)

theorem generate_config_effect_witness:
  "snd (generate_config demo_hooks demo_world) =
     demo_world
       \<lparr>remote_write_endpoints :=
          [[(''url'', YStr ''http://prometheus:9090/api/v1/write''),
            (''tls_config'', YDict [(''insecure_skip_verify'', YBool False)])]],
        loki_endpoints :=
          [[(''url'', YStr ''http://loki:3100/loki/api/v1/push''),
            (''tls_config'', YDict [(''insecure_skip_verify'', YBool False)])]]\<rparr>
   \<and> fst (generate_config demo_hooks (snd (generate_config demo_hooks demo_world)))
       = fst (generate_config demo_hooks demo_world)
   \<and> ''url'' \<noteq> ''tls_config''
   \<and> map_of (enrich (tls_insecure_skip_verify demo_hooks)
               [(''url'', YStr ''http://prometheus:9090/api/v1/write'')]) ''url''
       = Some (YStr ''http://prometheus:9090/api/v1/write'')"
  using generate_config_effect [of demo_hooks demo_world]
  by (simp add: generate_config_world generate_config_doc_idem demo_hooks_def plain_hooks_def
      demo_world_def enrich_def tls_config_def)

text \<open>
  C9 as stated fails: the endpoint records handed out by the providers are not the same
  after synthesis, \<^verbatim>\<open>_enrich_endpoints\<close> has assigned \<^verbatim>\<open>tls_config\<close> into each of them.
\<close>

theorem generate_config_mutates_counterexample:
  "remote_write_endpoints demo_world = [[(''url'', YStr ''http://prometheus:9090/api/v1/write'')]]
   \<and> remote_write_endpoints (snd (generate_config demo_hooks demo_world)) =
       [[(''url'', YStr ''http://prometheus:9090/api/v1/write''),
         (''tls_config'', YDict [(''insecure_skip_verify'', YBool False)])]]
   \<and> remote_write_endpoints (snd (generate_config demo_hooks demo_world))
       \<noteq> remote_write_endpoints demo_world
   \<and> loki_endpoints (snd (generate_config demo_hooks demo_world)) \<noteq> loki_endpoints demo_world"
  by (simp add: generate_config_world demo_hooks_def plain_hooks_def demo_world_def enrich_def
      tls_config_def)

section \<open>Properties of the reconciliation pass\<close>

lemma read_old_config_files:
  "files v = files w \<Longrightarrow> read_old_config h v = read_old_config h w"
  by (simp add: read_old_config_def)

text \<open>The pass when the agent is ready, with synthesis and read already done.\<close>

lemma update_config_ready:
  assumes "is_ready h"
  shows "update_config h w =
     (let config = fst (generate_config h w);
          w2 = (snd (generate_config h w))\<lparr>trace := trace w @ [CallGenerateConfig, CallReadFile CONFIG_PATH]\<rparr>
      in case read_old_config h w of
           Inl e \<Rightarrow> (w2, Some e)
         | Inr old_config \<Rightarrow>
             if py_eq config old_config then (set_status ActiveStatus w2, None)
             else apply_config h config old_config w2)"
proof -
  have eq: "log_event (CallReadFile CONFIG_PATH) (snd (generate_config h (log_event CallGenerateConfig w)))
      = (snd (generate_config h w))\<lparr>trace := trace w @ [CallGenerateConfig, CallReadFile CONFIG_PATH]\<rparr>"
    by (simp add: snd_generate_config_log) (simp add: log_event_def)
  have rd: "read_old_config h ((snd (generate_config h w))\<lparr>trace := trace w @ [CallGenerateConfig, CallReadFile CONFIG_PATH]\<rparr>)
      = read_old_config h w"
    by (rule read_old_config_files) simp
  show ?thesis
    using assms
    by (simp add: update_config_def split_def Let_def eq rd split: sum.split)
qed

text \<open>
  C5. When \<^verbatim>\<open>is_ready\<close> is false, \<^verbatim>\<open>_update_config\<close> only assigns the waiting status:
  the trace gains that assignment and nothing else (no synthesis, no read, no write, no
  restart), the files and the endpoint records are as before, and no exception leaves.
\<close>

theorem update_config_not_ready:
  "\<not> is_ready h \<Longrightarrow>
   update_config h w =
     (w\<lparr>status := WaitingStatus ''waiting for agent to start'',
        trace := trace w @ [SetStatus (WaitingStatus ''waiting for agent to start'')]\<rparr>, None)"
  by (simp add: update_config_def set_status_def)

theorem update_config_not_ready_witness:
  "\<not> is_ready (demo_hooks\<lparr>is_ready := False\<rparr>)
   \<and> update_config (demo_hooks\<lparr>is_ready := False\<rparr>) demo_world =
       (demo_world\<lparr>status := WaitingStatus ''waiting for agent to start'',
                   trace := [SetStatus (WaitingStatus ''waiting for agent to start'')]\<rparr>, None)"
  using update_config_not_ready [of "demo_hooks\<lparr>is_ready := False\<rparr>" demo_world]
  by (simp add: demo_defs)

text \<open>
  C1, as the code has it. When the agent is ready and reading the config file raises
  \<^verbatim>\<open>FileNotFoundError\<close> or \<^verbatim>\<open>PathError\<close>, the persisted config counts as absent
  (\<^verbatim>\<open>old_config = None\<close>), the failed read is not surfaced, and the pass goes on as on a
  fresh install: it writes the dump of the synthesized config to \<^verbatim>\<open>CONFIG_PATH\<close> and then
  restarts the agent, ending active unless the write or the restart raises. (A file that
  does not parse is another matter: see the counterexample.)
\<close>

theorem update_config_missing_file:
  assumes "is_ready h"
    and "read_file h (files w) CONFIG_PATH = Inl e"
    and "missing_file e"
  shows "read_old_config h w = Inr YNone \<and>
     update_config h w =
       (let config = fst (generate_config h w);
            text = yaml_dump h config;
            w3 = (snd (generate_config h w))
                   \<lparr>trace := trace w @ [CallGenerateConfig, CallReadFile CONFIG_PATH,
                                        CallWriteFile CONFIG_PATH text]\<rparr>
        in case write_file h (files w) CONFIG_PATH text of
             Inl e' \<Rightarrow> handle_apply_error e' w3
           | Inr fs \<Rightarrow>
               (let w4 = w3\<lparr>files := fs, trace := trace w3 @ [CallRestart]\<rparr>
                in case restart h of
                     Some e' \<Rightarrow> handle_apply_error e' w4
                   | None \<Rightarrow> (set_status ActiveStatus w4, None)))"
proof -
  have old: "read_old_config h w = Inr YNone"
    using assms(2,3) by (simp add: read_old_config_def)
  have neq: "\<not> py_eq (fst (generate_config h w)) YNone"
    by (rule generate_config_not_none)
  show ?thesis
    using assms(1) old neq
    by (simp add: update_config_ready apply_config_def Let_def log_event_def
        split: sum.split option.split)
qed

theorem update_config_missing_file_witness:
  "is_ready demo_hooks
   \<and> read_file demo_hooks (files demo_world) CONFIG_PATH = Inl (FileNotFoundError CONFIG_PATH)
   \<and> missing_file (FileNotFoundError CONFIG_PATH)
   \<and> read_old_config demo_hooks demo_world = Inr YNone
   \<and> trace (fst (update_config demo_hooks demo_world)) =
        [CallGenerateConfig, CallReadFile CONFIG_PATH,
         CallWriteFile CONFIG_PATH ''agent config'', CallRestart, SetStatus ActiveStatus]
   \<and> files (fst (update_config demo_hooks demo_world)) CONFIG_PATH = Some ''agent config''
   \<and> snd (update_config demo_hooks demo_world) = None"
  using update_config_missing_file [of demo_hooks demo_world "FileNotFoundError CONFIG_PATH"]
  by (simp add: demo_defs synth_defs set_status_def Let_def)

text \<open>
  C1 as stated fails for a file that is there and does not parse: the exception of
  \<^verbatim>\<open>yaml.safe_load\<close> is of neither class of the \<^verbatim>\<open>except\<close> clause, so it leaves
  \<^verbatim>\<open>_update_config\<close>; nothing is written, the agent is not restarted and the status stays
  as it was.
\<close>

theorem update_config_unparsable_counterexample:
  "snd (update_config demo_hooks (demo_world\<lparr>files := [CONFIG_PATH \<mapsto> ''{not yaml'']\<rparr>))
     = Some (YAMLError ''could not parse'')
   \<and> trace (fst (update_config demo_hooks (demo_world\<lparr>files := [CONFIG_PATH \<mapsto> ''{not yaml'']\<rparr>)))
     = [CallGenerateConfig, CallReadFile CONFIG_PATH]
   \<and> files (fst (update_config demo_hooks (demo_world\<lparr>files := [CONFIG_PATH \<mapsto> ''{not yaml'']\<rparr>)))
        CONFIG_PATH = Some ''{not yaml''
   \<and> status (fst (update_config demo_hooks (demo_world\<lparr>files := [CONFIG_PATH \<mapsto> ''{not yaml'']\<rparr>)))
     = MaintenanceStatus ''installing''"
  by (simp add: update_config_def read_old_config_def demo_defs synth_defs log_event_def
      Let_def split_def)

lemma files_handle_apply_error [simp]: "files (fst (handle_apply_error e w)) = files w"
  by (cases e) (simp_all add: set_status_def)

text \<open>
  C7. When the agent is ready, the synthesized config differs from the persisted one and
  the write has happened: a \<^verbatim>\<open>GrafanaAgentReloadError\<close> of the restart leaves the unit
  blocked with the error's message, an \<^verbatim>\<open>APIError\<close> leaves it waiting with the error's
  message, and a restart that raises nothing leaves it active. In each case the handler
  returns normally.
\<close>

theorem update_config_restart_outcome:
  assumes "is_ready h"
    and "read_old_config h w = Inr old_config"
    and "\<not> py_eq (fst (generate_config h w)) old_config"
    and "write_file h (files w) CONFIG_PATH (yaml_dump h (fst (generate_config h w))) = Inr fs"
  shows "files (fst (update_config h w)) = fs
    \<and> (\<forall>m. restart h = Some (GrafanaAgentReloadError m) \<longrightarrow>
          status (fst (update_config h w)) = BlockedStatus m \<and> snd (update_config h w) = None)
    \<and> (\<forall>m. restart h = Some (APIError m) \<longrightarrow>
          status (fst (update_config h w)) = WaitingStatus m \<and> snd (update_config h w) = None)
    \<and> (restart h = None \<longrightarrow>
          status (fst (update_config h w)) = ActiveStatus \<and> snd (update_config h w) = None)"
  using assms
  by (simp add: update_config_ready apply_config_def Let_def log_event_def set_status_def
      split: option.split)

theorem update_config_restart_outcome_witness:
  "is_ready demo_hooks
   \<and> read_old_config demo_hooks demo_world = Inr YNone
   \<and> \<not> py_eq (fst (generate_config demo_hooks demo_world)) YNone
   \<and> write_file demo_hooks (files demo_world) CONFIG_PATH
        (yaml_dump demo_hooks (fst (generate_config demo_hooks demo_world)))
       = Inr [CONFIG_PATH \<mapsto> ''agent config'']
   \<and> status (fst (update_config (demo_hooks\<lparr>restart := Some (GrafanaAgentReloadError ''could not reload configuration: timed out'')\<rparr>) demo_world))
       = BlockedStatus ''could not reload configuration: timed out''
   \<and> status (fst (update_config (demo_hooks\<lparr>restart := Some (APIError ''service not found'')\<rparr>) demo_world))
       = WaitingStatus ''service not found''
   \<and> status (fst (update_config demo_hooks demo_world)) = ActiveStatus"
  using update_config_restart_outcome [of demo_hooks demo_world YNone "[CONFIG_PATH \<mapsto> ''agent config'']"]
    update_config_restart_outcome [of "demo_hooks\<lparr>restart := Some (GrafanaAgentReloadError ''could not reload configuration: timed out'')\<rparr>"
       demo_world YNone "[CONFIG_PATH \<mapsto> ''agent config'']"]
    update_config_restart_outcome [of "demo_hooks\<lparr>restart := Some (APIError ''service not found'')\<rparr>"
       demo_world YNone "[CONFIG_PATH \<mapsto> ''agent config'']"]
  by (simp add: demo_defs synth_defs read_old_config_def Let_def)

lemma update_config_up_to_date:
  assumes "is_ready h"
    and "read_old_config h w = Inr old_config"
    and "py_eq (fst (generate_config h w)) old_config"
  shows "update_config h w =
     ((snd (generate_config h w))
        \<lparr>status := ActiveStatus,
         trace := trace w @ [CallGenerateConfig, CallReadFile CONFIG_PATH, SetStatus ActiveStatus]\<rparr>,
      None)"
  using assms by (simp add: update_config_ready Let_def set_status_def)

lemma update_config_second_pass:
  assumes ready: "is_ready h"
    and rw: "remote_write_endpoints w1 = remote_write_endpoints (snd (generate_config h w))"
    and lk: "loki_endpoints w1 = loki_endpoints (snd (generate_config h w))"
    and old: "read_old_config h w1 = Inr c"
    and eq: "py_eq (fst (generate_config h w)) c"
  shows "update_config h w1 =
     (w1\<lparr>status := ActiveStatus,
         trace := trace w1 @ [CallGenerateConfig, CallReadFile CONFIG_PATH, SetStatus ActiveStatus]\<rparr>,
      None)"
proof -
  have doc: "fst (generate_config h w1) = fst (generate_config h w)"
    using generate_config_doc_cong [OF rw lk, of h] by (simp add: generate_config_doc_idem)
  have "snd (generate_config h w1) = w1"
    using rw lk by (simp add: generate_config_world enrich_idem comp_def)
  with update_config_up_to_date [OF ready old] doc eq show ?thesis
    by simp
qed

lemma handle_apply_error_None:
  assumes "handle_apply_error e v = (w1, None)"
  shows "files w1 = files v \<and> remote_write_endpoints w1 = remote_write_endpoints v
    \<and> loki_endpoints w1 = loki_endpoints v \<and> (\<exists>s. trace w1 = trace v @ [SetStatus s])"
  using assms by (cases e) (auto simp: set_status_def)

text \<open>
  C3, as the code has it. Let the agent be ready, let \<^verbatim>\<open>write_file\<close> store the text that
  \<^verbatim>\<open>read_file\<close> then returns, and let the YAML library load the dump of the synthesized
  config as a document that compares equal to it. If a first pass returns normally, then
  a second pass over the state it left compares the fresh config equal to the one on
  disk, writes nothing, restarts nothing and ends active. The comparison is that of the
  loaded documents, not of texts, and it does not see the order of keys
  (\<open>py_eq_key_order\<close>). The first pass made at most
  one write and one restart; it ended active when the restart raised nothing (and
  blocked or waiting when the restart raised one of the two handled errors).
\<close>

theorem update_config_idempotent:
  assumes ready: "is_ready h"
    and store: "\<forall>fs text. \<exists>fs'. write_file h fs CONFIG_PATH text = Inr fs'
                  \<and> read_file h fs' CONFIG_PATH = Inr text"
    and roundtrip: "\<exists>c. yaml_safe_load h (yaml_dump h (fst (generate_config h w))) = Inr c
                  \<and> py_eq (fst (generate_config h w)) c"
    and first: "update_config h w = (w1, None)"
  shows "update_config h w1 =
       (w1\<lparr>status := ActiveStatus,
           trace := trace w1 @ [CallGenerateConfig, CallReadFile CONFIG_PATH, SetStatus ActiveStatus]\<rparr>,
        None)
    \<and> (trace w1 = trace w @ [CallGenerateConfig, CallReadFile CONFIG_PATH, SetStatus ActiveStatus]
       \<or> (\<exists>s. trace w1 = trace w @ [CallGenerateConfig, CallReadFile CONFIG_PATH,
              CallWriteFile CONFIG_PATH (yaml_dump h (fst (generate_config h w))),
              CallRestart, SetStatus s]))
    \<and> (restart h = None \<longrightarrow> status w1 = ActiveStatus)"
proof -
  let ?cfg = "fst (generate_config h w)"
  let ?text = "yaml_dump h ?cfg"
  let ?w2 = "(snd (generate_config h w))\<lparr>trace := trace w @ [CallGenerateConfig, CallReadFile CONFIG_PATH]\<rparr>"
  from first obtain old where old: "read_old_config h w = Inr old"
    by (cases "read_old_config h w") (simp_all add: update_config_ready [OF ready] Let_def)
  show ?thesis
  proof (cases "py_eq ?cfg old")
    case True
    with first old have w1: "w1 = set_status ActiveStatus ?w2"
      by (simp add: update_config_ready [OF ready] Let_def)
    have "read_old_config h w1 = Inr old"
      using old read_old_config_files [of w1 w h] by (simp add: w1 set_status_def)
    from update_config_second_pass [OF ready _ _ this True]
    show ?thesis by (simp add: w1 set_status_def)
  next
    case False
    from store obtain fs' where wr: "write_file h (files w) CONFIG_PATH ?text = Inr fs'"
      and rd: "read_file h fs' CONFIG_PATH = Inr ?text" by blast
    let ?w4 = "(snd (generate_config h w))
        \<lparr>files := fs',
         trace := trace w @ [CallGenerateConfig, CallReadFile CONFIG_PATH,
                            CallWriteFile CONFIG_PATH ?text, CallRestart]\<rparr>"
    have app: "(case restart h of Some e \<Rightarrow> handle_apply_error e ?w4
                | None \<Rightarrow> (set_status ActiveStatus ?w4, None)) = (w1, None)"
      using first old False wr
      by (simp add: update_config_ready [OF ready] apply_config_def Let_def log_event_def)
    have props: "files w1 = fs' \<and> remote_write_endpoints w1 = remote_write_endpoints (snd (generate_config h w))
      \<and> loki_endpoints w1 = loki_endpoints (snd (generate_config h w))
      \<and> (\<exists>s. trace w1 = trace ?w4 @ [SetStatus s])
      \<and> (restart h = None \<longrightarrow> status w1 = ActiveStatus)"
    proof (cases "restart h")
      case None
      with app show ?thesis by (auto simp: set_status_def)
    next
      case (Some e)
      with app have "handle_apply_error e ?w4 = (w1, None)" by simp
      from handle_apply_error_None [OF this] Some show ?thesis by simp
    qed
    from roundtrip obtain c where c: "yaml_safe_load h ?text = Inr c" "py_eq ?cfg c" by blast
    have "read_old_config h w1 = Inr c"
      using props rd c by (simp add: read_old_config_def)
    from update_config_second_pass [OF ready _ _ this c(2)] props
    show ?thesis by auto
  qed
qed

theorem update_config_idempotent_witness:
  "is_ready demo_hooks
   \<and> (\<exists>c. yaml_safe_load demo_hooks (yaml_dump demo_hooks (fst (generate_config demo_hooks demo_world))) = Inr c
          \<and> c \<noteq> fst (generate_config demo_hooks demo_world)
          \<and> py_eq (fst (generate_config demo_hooks demo_world)) c)
   \<and> snd (update_config demo_hooks demo_world) = None
   \<and> trace (fst (update_config demo_hooks demo_world)) =
        [CallGenerateConfig, CallReadFile CONFIG_PATH,
         CallWriteFile CONFIG_PATH ''agent config'', CallRestart, SetStatus ActiveStatus]
   \<and> snd (update_config demo_hooks (fst (update_config demo_hooks demo_world))) = None
   \<and> status (fst (update_config demo_hooks (fst (update_config demo_hooks demo_world)))) = ActiveStatus
   \<and> trace (fst (update_config demo_hooks (fst (update_config demo_hooks demo_world)))) =
        [CallGenerateConfig, CallReadFile CONFIG_PATH,
         CallWriteFile CONFIG_PATH ''agent config'', CallRestart, SetStatus ActiveStatus,
         CallGenerateConfig, CallReadFile CONFIG_PATH, SetStatus ActiveStatus]"
proof -
  define w1 where "w1 = fst (update_config demo_hooks demo_world)"
  have ready: "is_ready demo_hooks"
    by (simp add: demo_defs)
  have store: "\<forall>fs text. \<exists>fs'. write_file demo_hooks fs CONFIG_PATH text = Inr fs'
                  \<and> read_file demo_hooks fs' CONFIG_PATH = Inr text"
    by (simp add: demo_defs)
  have load: "yaml_safe_load demo_hooks (yaml_dump demo_hooks (fst (generate_config demo_hooks demo_world)))
      = Inr (reordered demo_config)"
    by (simp add: demo_defs synth_defs Let_def)
  have differs: "reordered demo_config \<noteq> fst (generate_config demo_hooks demo_world)"
    by (simp add: demo_defs synth_defs Let_def)
  have same: "py_eq (fst (generate_config demo_hooks demo_world)) (reordered demo_config)"
    by (simp add: demo_defs synth_defs Let_def)
  have first_trace: "trace w1 =
        [CallGenerateConfig, CallReadFile CONFIG_PATH,
         CallWriteFile CONFIG_PATH ''agent config'', CallRestart, SetStatus ActiveStatus]"
    and first_exn: "snd (update_config demo_hooks demo_world) = None"
    unfolding w1_def
    by (simp_all add: update_config_def apply_config_def read_old_config_def
        demo_defs synth_defs set_status_def log_event_def Let_def split_def)
  have first: "update_config demo_hooks demo_world = (w1, None)"
    using first_exn by (simp add: w1_def prod_eq_iff)
  have roundtrip: "\<exists>c. yaml_safe_load demo_hooks (yaml_dump demo_hooks (fst (generate_config demo_hooks demo_world))) = Inr c
      \<and> py_eq (fst (generate_config demo_hooks demo_world)) c"
    using load same by simp
  from update_config_idempotent [OF ready store roundtrip first]
  have second: "update_config demo_hooks w1 =
       (w1\<lparr>status := ActiveStatus,
           trace := trace w1 @ [CallGenerateConfig, CallReadFile CONFIG_PATH, SetStatus ActiveStatus]\<rparr>,
        None)"
    by simp
  show ?thesis
    using ready load differs same first_exn first_trace second
    by (simp add: w1_def [symmetric])
qed

text \<open>
  C3 as stated, for every input state and with the active status after both passes,
  fails: a first pass whose restart raises \<^verbatim>\<open>GrafanaAgentReloadError\<close> ends blocked, and
  with \<^verbatim>\<open>is_ready\<close> false both passes end waiting.
\<close>

theorem update_config_twice_counterexample:
  "status (fst (update_config
      (demo_hooks\<lparr>restart := Some (GrafanaAgentReloadError ''could not reload configuration'')\<rparr>)
      demo_world)) = BlockedStatus ''could not reload configuration''
   \<and> status (fst (update_config (demo_hooks\<lparr>is_ready := False\<rparr>) demo_world))
       = WaitingStatus ''waiting for agent to start''
   \<and> status (fst (update_config (demo_hooks\<lparr>is_ready := False\<rparr>)
        (fst (update_config (demo_hooks\<lparr>is_ready := False\<rparr>) demo_world))))
       = WaitingStatus ''waiting for agent to start''"
  by (simp add: update_config_def apply_config_def read_old_config_def
        demo_defs synth_defs set_status_def log_event_def Let_def split_def)

section \<open>Properties of the status handler\<close>

text \<open>
  C10. Whatever \<^verbatim>\<open>is_ready\<close> says and whatever relations exist, \<^verbatim>\<open>_update_status\<close> ends
  with the active status: the last assignment of the handler is \<^verbatim>\<open>ActiveStatus()\<close>, after
  the waiting status it assigns when the agent is not ready. (The charm declares the
  remote-write relation, so that the subscript on \<^verbatim>\<open>self.model.relations\<close> finds it.)
\<close>

theorem update_status_active:
  assumes "relations h REMOTE_WRITE_RELATION_NAME \<noteq> None"
  shows "snd (update_status h w) = None \<and> status (fst (update_status h w)) = ActiveStatus
    \<and> (\<exists>evs. trace (fst (update_status h w)) = trace w @ evs @ [SetStatus ActiveStatus]
          \<and> (\<not> is_ready h \<longrightarrow> SetStatus (WaitingStatus ''waiting for the agent to start'') \<in> set evs))
    \<and> files (fst (update_status h w)) = files w"
  using assms
  by (auto simp: update_status_def set_status_def Let_def split: option.splits)

theorem update_status_active_witness:
  "relations (demo_hooks\<lparr>is_ready := False\<rparr>) REMOTE_WRITE_RELATION_NAME \<noteq> None
   \<and> snd (update_status (demo_hooks\<lparr>is_ready := False\<rparr>) demo_world) = None
   \<and> status (fst (update_status (demo_hooks\<lparr>is_ready := False\<rparr>) demo_world)) = ActiveStatus
   \<and> trace (fst (update_status (demo_hooks\<lparr>is_ready := False\<rparr>) demo_world)) =
        [SetStatus (WaitingStatus ''no related Prometheus remote-write''),
         SetStatus (WaitingStatus ''waiting for the agent to start''),
         SetStatus ActiveStatus]"
  using update_status_active [of "demo_hooks\<lparr>is_ready := False\<rparr>" demo_world]
  by (simp add: demo_defs update_status_def set_status_def REMOTE_WRITE_RELATION_NAME_def)

section \<open>Properties of the rules sync\<close>

lemma rule_write_pair:
  "rule_write h (i, rule) entries = entries(rules_file i \<mapsto> File (yaml_dump h rule))"
  by (simp add: rule_write_def)

lemma rules_file_inj [simp]: "(rules_file a = rules_file b) = (a = b)"
  by (simp add: rules_file_def)

lemma slash_rules_file [simp]: "(CHR ''/'' \<in> set (rules_file a)) = (CHR ''/'' \<in> set a)"
  by (auto simp: rules_file_def)

lemma write_rules_run:
  assumes "dirs w d = Some entries"
    and "\<forall>i \<in> fst ` set rules. CHR ''/'' \<notin> set i \<and> (\<forall>sub. entries (rules_file i) \<noteq> Some (Dir sub))"
  shows "write_rules h d rules w =
     (w\<lparr>dirs := (dirs w)(d \<mapsto> fold (rule_write h) rules entries),
        trace := trace w @ map (\<lambda>item. CallWriteText d (rules_file (fst item)) (yaml_dump h (snd item))) rules\<rparr>,
      None)"
  using assms
proof (induction rules arbitrary: w entries)
  case Nil
  then show ?case by (simp add: fun_upd_idem)
next
  case (Cons item rules)
  obtain i rule where item: "item = (i, rule)" by (cases item)
  let ?text = "yaml_dump h rule"
  let ?w2 = "w\<lparr>dirs := (dirs w)(d \<mapsto> entries(rules_file i \<mapsto> File ?text)),
               trace := trace w @ [CallWriteText d (rules_file i) ?text]\<rparr>"
  have nodir: "\<forall>sub. entries (rules_file i) \<noteq> Some (Dir sub)" and noslash: "CHR ''/'' \<notin> set i"
    using Cons.prems(2) by (auto simp: item)
  have step: "write_text d (rules_file i) ?text (log_event (CallWriteText d (rules_file i) ?text) w) = Inr ?w2"
    using Cons.prems(1) nodir noslash
    by (auto simp: write_text_def log_event_def split: option.splits node.splits)
  have d2: "dirs ?w2 d = Some (entries(rules_file i \<mapsto> File ?text))" by simp
  have rest: "\<forall>j \<in> fst ` set rules. CHR ''/'' \<notin> set j
      \<and> (\<forall>sub. (entries(rules_file i \<mapsto> File ?text)) (rules_file j) \<noteq> Some (Dir sub))"
    using Cons.prems(2) by auto
  have ih: "write_rules h d rules ?w2 =
     (w\<lparr>dirs := (dirs w)(d \<mapsto> fold (rule_write h) rules (entries(rules_file i \<mapsto> File ?text))),
        trace := trace w @ CallWriteText d (rules_file i) ?text
                   # map (\<lambda>item. CallWriteText d (rules_file (fst item)) (yaml_dump h (snd item))) rules\<rparr>,
      None)"
    unfolding Cons.IH [OF d2 rest] by (intro conjI prod_eqI world.equality ext) simp_all
  have "write_rules h d (item # rules) w = write_rules h d rules ?w2"
    by (simp add: item Let_def step)
  also note ih
  also have "(w\<lparr>dirs := (dirs w)(d \<mapsto> fold (rule_write h) rules (entries(rules_file i \<mapsto> File ?text))),
        trace := trace w @ CallWriteText d (rules_file i) ?text
                   # map (\<lambda>item. CallWriteText d (rules_file (fst item)) (yaml_dump h (snd item))) rules\<rparr>,
      None :: exn option)
    = (w\<lparr>dirs := (dirs w)(d \<mapsto> fold (rule_write h) (item # rules) entries),
        trace := trace w @ map (\<lambda>item. CallWriteText d (rules_file (fst item)) (yaml_dump h (snd item))) (item # rules)\<rparr>,
      None)"
    by (intro conjI prod_eqI world.equality ext) (simp_all add: item rule_write_pair)
  finally show ?case .
qed

lemma fold_rule_write_other:
  "name \<notin> rules_file ` fst ` set rules \<Longrightarrow> fold (rule_write h) rules entries name = entries name"
  by (induction rules arbitrary: entries) (auto simp: rule_write_pair)

lemma fold_rule_write_item:
  "distinct (map fst rules) \<Longrightarrow> (i, rule) \<in> set rules \<Longrightarrow>
   fold (rule_write h) rules entries (rules_file i) = Some (File (yaml_dump h rule))"
proof (induction rules arbitrary: entries)
  case Nil
  then show ?case by simp
next
  case (Cons item rules)
  show ?case
  proof (cases "item = (i, rule)")
    case True
    with Cons.prems(1) have "rules_file i \<notin> rules_file ` fst ` set rules" by force
    from fold_rule_write_other [OF this] True show ?thesis
      by (simp add: rule_write_pair)
  next
    case False
    with Cons show ?thesis by simp
  qed
qed

lemma update_alerts_rules_run:
  assumes "recurse_call_chain alerts_func = Inr rules"
    and "dirs w (src mapping) = Some template"
    and "dirs w (dest mapping) \<noteq> None"
    and "src mapping \<noteq> dest mapping"
    and "\<forall>i \<in> fst ` set rules. CHR ''/'' \<notin> set i \<and> (\<forall>sub. template (rules_file i) \<noteq> Some (Dir sub))"
  shows "update_alerts_rules h alerts_func reload_func mapping w =
     (w\<lparr>dirs := (dirs w)(dest mapping \<mapsto> fold (rule_write h) rules template),
        trace := trace w @ [CallRmtree (dest mapping), CallCopytree (src mapping) (dest mapping)]
                   @ map (\<lambda>item. CallWriteText (dest mapping) (rules_file (fst item)) (yaml_dump h (snd item))) rules
                   @ [CallReloadFunc]\<rparr>,
      reload_func)"
proof -
  let ?w4 = "w\<lparr>dirs := (dirs w)(dest mapping \<mapsto> template),
               trace := trace w @ [CallRmtree (dest mapping), CallCopytree (src mapping) (dest mapping)]\<rparr>"
  have d4: "dirs ?w4 (dest mapping) = Some template" by simp
  have wr: "write_rules h (dest mapping) rules ?w4 =
     (w\<lparr>dirs := (dirs w)(dest mapping \<mapsto> fold (rule_write h) rules template),
        trace := trace w @ [CallRmtree (dest mapping), CallCopytree (src mapping) (dest mapping)]
                   @ map (\<lambda>item. CallWriteText (dest mapping) (rules_file (fst item)) (yaml_dump h (snd item))) rules\<rparr>,
      None)"
    unfolding write_rules_run [OF d4 assms(5), of h] by (intro conjI prod_eqI world.equality ext) simp_all
  have rm: "rmtree (dest mapping) (log_event (CallRmtree (dest mapping)) w)
      = Inr (w\<lparr>dirs := (dirs w)(dest mapping := None), trace := trace w @ [CallRmtree (dest mapping)]\<rparr>)"
    using assms(3) by (auto simp: rmtree_def log_event_def)
  have cp: "copytree (src mapping) (dest mapping)
      (log_event (CallCopytree (src mapping) (dest mapping))
         (w\<lparr>dirs := (dirs w)(dest mapping := None), trace := trace w @ [CallRmtree (dest mapping)]\<rparr>))
      = Inr ?w4"
    using assms(2,4) by (simp add: copytree_def log_event_def)
  have "update_alerts_rules h alerts_func reload_func mapping w =
     (log_event CallReloadFunc
        (w\<lparr>dirs := (dirs w)(dest mapping \<mapsto> fold (rule_write h) rules template),
          trace := trace w @ [CallRmtree (dest mapping), CallCopytree (src mapping) (dest mapping)]
                   @ map (\<lambda>item. CallWriteText (dest mapping) (rules_file (fst item)) (yaml_dump h (snd item))) rules\<rparr>),
      reload_func)"
    by (simp add: update_alerts_rules_def assms(1) Let_def rm cp wr)
  then show ?thesis
    by (simp add: log_event_def)
qed

text \<open>
  C4, as the code has it. \<^verbatim>\<open>update_alerts_rules\<close> replaces the destination directory,
  writes one file per rule group and then calls \<^verbatim>\<open>reload_func\<close> itself, once, as its last
  step; what \<^verbatim>\<open>reload_func\<close> raises leaves \<^verbatim>\<open>update_alerts_rules\<close>. This holds whenever
  the replacement and the writes go through: source and destination are directories,
  they differ, no identifier has a \<^verbatim>\<open>/\<close> and no generated name is a directory of the
  template.
\<close>

theorem update_alerts_rules_reloads:
  assumes "recurse_call_chain alerts_func = Inr rules"
    and "dirs w (src mapping) = Some template"
    and "dirs w (dest mapping) \<noteq> None"
    and "src mapping \<noteq> dest mapping"
    and "\<forall>i \<in> fst ` set rules. CHR ''/'' \<notin> set i \<and> (\<forall>sub. template (rules_file i) \<noteq> Some (Dir sub))"
  shows "trace (fst (update_alerts_rules h alerts_func reload_func mapping w)) =
       trace w @ [CallRmtree (dest mapping), CallCopytree (src mapping) (dest mapping)]
         @ map (\<lambda>item. CallWriteText (dest mapping) (rules_file (fst item)) (yaml_dump h (snd item))) rules
         @ [CallReloadFunc]
     \<and> snd (update_alerts_rules h alerts_func reload_func mapping w) = reload_func"
  by (simp add: update_alerts_rules_run [OF assms])

theorem update_alerts_rules_reloads_witness:
  "recurse_call_chain (Callable (\<lambda>u. Concrete [(''A'', rule_A)])) = Inr [(''A'', rule_A)]
   \<and> dirs rules_world (src metrics_rules_paths) = Some [''agent.rules'' \<mapsto> File ''groups: []'']
   \<and> dirs rules_world (dest metrics_rules_paths) \<noteq> None
   \<and> src metrics_rules_paths \<noteq> dest metrics_rules_paths
   \<and> trace (fst (update_alerts_rules demo_hooks (Callable (\<lambda>u. Concrete [(''A'', rule_A)])) None
         metrics_rules_paths rules_world)) =
       [CallRmtree ''/charm/./prometheus_alert_rules'',
        CallCopytree ''/charm/./src/prometheus_alert_rules'' ''/charm/./prometheus_alert_rules'',
        CallWriteText ''/charm/./prometheus_alert_rules'' ''juju_A.rules'' ''groups: [{name: a}]'',
        CallReloadFunc]
   \<and> snd (update_alerts_rules demo_hooks (Callable (\<lambda>u. Concrete [(''A'', rule_A)])) None
         metrics_rules_paths rules_world) = None"
  using update_alerts_rules_reloads [of "Callable (\<lambda>u. Concrete [(''A'', rule_A)])" "[(''A'', rule_A)]"
      rules_world metrics_rules_paths "[''agent.rules'' \<mapsto> File ''groups: []'']" demo_hooks None]
  by (simp add: update_alerts_rules_def rmtree_def copytree_def write_text_def log_event_def
      rules_world_def metrics_rules_paths_def demo_defs synth_defs rule_A_def rule_B_def
      rules_file_def Let_def split_def)

text \<open>
  C4 as stated fails: the trace of a sync holds the call of \<^verbatim>\<open>reload_func\<close>, and it is the
  last thing a sync does, also when there is no rule group at all.
\<close>

theorem update_alerts_rules_reload_counterexample:
  "CallReloadFunc \<in> set (trace (fst (update_alerts_rules demo_hooks
       (Callable (\<lambda>u. Concrete [(''A'', rule_A)])) None metrics_rules_paths rules_world)))
   \<and> last (trace (fst (update_alerts_rules demo_hooks
       (Callable (\<lambda>u. Concrete [])) None metrics_rules_paths rules_world))) = CallReloadFunc"
  by (simp add: update_alerts_rules_def rmtree_def copytree_def write_text_def log_event_def
      rules_world_def metrics_rules_paths_def demo_defs synth_defs rule_A_def rule_B_def
      rules_file_def Let_def split_def)

text \<open>
  C6. After \<^verbatim>\<open>update_alerts_rules\<close> the destination directory holds, for every supplied
  group, the file \<^verbatim>\<open>juju_<identifier>.rules\<close> with the dump of the group's content, and
  under every other name exactly what the source template holds under that name:
  nothing of what the destination held before is left, and with no group the
  destination is the copy of the template. The source directory is as before. The
  hypotheses say that the replacement and the writes go through (source and destination
  are directories and differ, no identifier has a \<^verbatim>\<open>/\<close>, no generated name is a
  directory of the template) and that the identifiers are the keys of a dictionary.
\<close>

theorem update_alerts_rules_dest:
  assumes "recurse_call_chain alerts_func = Inr rules"
    and "distinct (map fst rules)"
    and "dirs w (src mapping) = Some template"
    and "dirs w (dest mapping) \<noteq> None"
    and "src mapping \<noteq> dest mapping"
    and "\<forall>i \<in> fst ` set rules. CHR ''/'' \<notin> set i \<and> (\<forall>sub. template (rules_file i) \<noteq> Some (Dir sub))"
  shows "\<exists>entries.
       dirs (fst (update_alerts_rules h alerts_func reload_func mapping w)) (dest mapping) = Some entries
     \<and> (\<forall>(i, rule) \<in> set rules. entries (rules_file i) = Some (File (yaml_dump h rule)))
     \<and> (\<forall>name. name \<notin> rules_file ` fst ` set rules \<longrightarrow> entries name = template name)
     \<and> (rules = [] \<longrightarrow> entries = template)
     \<and> dirs (fst (update_alerts_rules h alerts_func reload_func mapping w)) (src mapping) = Some template"
proof (intro exI conjI)
  show "dirs (fst (update_alerts_rules h alerts_func reload_func mapping w)) (dest mapping)
      = Some (fold (rule_write h) rules template)"
    by (simp add: update_alerts_rules_run [OF assms(1,3-6)])
  show "\<forall>(i, rule) \<in> set rules. fold (rule_write h) rules template (rules_file i) = Some (File (yaml_dump h rule))"
    using fold_rule_write_item [OF assms(2)] by auto
  show "\<forall>name. name \<notin> rules_file ` fst ` set rules \<longrightarrow> fold (rule_write h) rules template name = template name"
    using fold_rule_write_other by blast
  show "rules = [] \<longrightarrow> fold (rule_write h) rules template = template"
    by simp
  show "dirs (fst (update_alerts_rules h alerts_func reload_func mapping w)) (src mapping) = Some template"
    using assms(3,5) by (simp add: update_alerts_rules_run [OF assms(1,3-6)])
qed

theorem update_alerts_rules_dest_witness:
  "recurse_call_chain (Callable (\<lambda>u. Concrete [(''A'', rule_A)])) = Inr [(''A'', rule_A)]
   \<and> distinct (map fst [(''A'', rule_A)])
   \<and> dirs rules_world (src metrics_rules_paths) = Some [''agent.rules'' \<mapsto> File ''groups: []'']
   \<and> dirs rules_world (dest metrics_rules_paths) \<noteq> None
   \<and> src metrics_rules_paths \<noteq> dest metrics_rules_paths
   \<and> dirs (fst (update_alerts_rules demo_hooks (Callable (\<lambda>u. Concrete [(''A'', rule_A)])) None
              metrics_rules_paths rules_world)) (dest metrics_rules_paths)
       = Some [''agent.rules'' \<mapsto> File ''groups: []'',
               ''juju_A.rules'' \<mapsto> File ''groups: [{name: a}]'']
   \<and> dirs (fst (update_alerts_rules demo_hooks (Callable (\<lambda>u. Concrete [])) None
              metrics_rules_paths rules_world)) (dest metrics_rules_paths)
       = Some [''agent.rules'' \<mapsto> File ''groups: []'']"
  using update_alerts_rules_dest [of "Callable (\<lambda>u. Concrete [(''A'', rule_A)])" "[(''A'', rule_A)]"
      rules_world metrics_rules_paths "[''agent.rules'' \<mapsto> File ''groups: []'']" demo_hooks None]
  by (simp add: update_alerts_rules_def rmtree_def copytree_def write_text_def log_event_def
      rules_world_def metrics_rules_paths_def demo_defs synth_defs rule_A_def rule_B_def
      rules_file_def Let_def split_def)

section \<open>Properties of the HTTP reload\<close>

lemma in_errors_503: "503 \<in> set errors" "200 \<notin> set errors"
  by (simp_all add: errors_def)

text \<open>
  A \<^verbatim>\<open>POST\<close> is not among the methods the retry configuration of \<^verbatim>\<open>_reload_config\<close>
  retries on a status, so whatever status the first request is answered with, it is the
  only request, and \<^verbatim>\<open>_reload_config\<close> returns normally.
\<close>

lemma reload_config_status_once:
  "endpoint 0 = Status s \<Longrightarrow>
   reload_config describe endpoint attempts w =
     (w\<lparr>status := MaintenanceStatus ''reloading agent configuration'',
        trace := trace w @ [SetStatus (MaintenanceStatus ''reloading agent configuration''),
                           CallPost reload_url]\<rparr>, None)"
  by (simp add: reload_config_def urlopen.simps is_retry_def DEFAULT_ALLOWED_METHODS_def
      set_status_def log_event_def Let_def)

text \<open>
  C2, at its own inputs. With \<^verbatim>\<open>attempts = 3\<close> and an endpoint that always answers 503,
  \<^verbatim>\<open>_reload_config\<close> posts once and returns without raising, where the claim has three
  requests and a \<^verbatim>\<open>GrafanaAgentReloadError\<close>; against 503, 503, 200 it returns after the
  first request, which was answered 503, not on the third. Were \<^verbatim>\<open>POST\<close> among the
  retried methods, \<^verbatim>\<open>total = 3\<close> would still mean three retries after the first request:
  four requests before the failure is raised.
\<close>

theorem reload_config_always_503:
  "reload_config describe (\<lambda>k. Status 503) 3 w =
     (w\<lparr>status := MaintenanceStatus ''reloading agent configuration'',
        trace := trace w @ [SetStatus (MaintenanceStatus ''reloading agent configuration''),
                           CallPost reload_url]\<rparr>, None)
   \<and> reload_config describe (\<lambda>k. if k < 2 then Status 503 else Status 200) 3 w =
     (w\<lparr>status := MaintenanceStatus ''reloading agent configuration'',
        trace := trace w @ [SetStatus (MaintenanceStatus ''reloading agent configuration''),
                           CallPost reload_url]\<rparr>, None)
   \<and> urlopen \<lparr>retry_total = 3, status_forcelist = errors,
               allowed_methods = ''POST'' # DEFAULT_ALLOWED_METHODS\<rparr>
         ''POST'' reload_url describe (\<lambda>k. Status 503) 0 w =
     (Inl (OtherError (describe (Status 503))),
      w\<lparr>trace := trace w @ [CallPost reload_url, CallPost reload_url, CallPost reload_url,
                           CallPost reload_url]\<rparr>)"
  by (simp add: reload_config_def urlopen.simps is_retry_def DEFAULT_ALLOWED_METHODS_def
      in_errors_503 set_status_def log_event_def Let_def)

end
